theory Spec2Isabelle
  imports Complex_Main
begin

section \<open>Python values shared by the models\<close>

text \<open>
  Exceptions of the Python runtime and of the libraries called by the code are values;
  a function that can raise returns \<open>exn + 'a\<close> with \<open>Inl\<close> for the exception.
\<close>

datatype exn =
    AttributeError
  | NameError
  | UnboundLocalError
  | KeyError
  | IndexError
  | StripeError
  | DatabaseError

type_synonym uuid = nat

text \<open>A \<open>UTCDateTime\<close> value, as seconds on the UTC time line.\<close>

type_synonym utc = int

text \<open>
  A text column read in Python is \<open>None\<close> or a \<open>str\<close>. In a boolean position
  (\<open>if x\<close>, \<open>not x\<close>, \<open>x and y\<close>, \<open>x or y\<close>) it counts as true exactly when it is a
  non-empty string.
\<close>

definition truthy :: "string option \<Rightarrow> bool" where
  "truthy s = (case s of None \<Rightarrow> False | Some v \<Rightarrow> v \<noteq> [])"

text \<open>
  The builtin \<open>sum(xs)\<close> on a list of integers: it starts from 0 and adds the elements
  from left to right.
\<close>

fun sum_from :: "int \<Rightarrow> int list \<Rightarrow> int" where
  "sum_from acc [] = acc"
| "sum_from acc (x # xs) = sum_from (acc + x) xs"

definition py_sum :: "int list \<Rightarrow> int" where
  "py_sum xs = sum_from 0 xs"

text \<open>
  A list comprehension \<open>[e(x) for x in xs]\<close> whose element expression can raise: the
  first exception ends the comprehension.
\<close>

fun comprehend :: "(exn + 'a) list \<Rightarrow> exn + 'a list" where
  "comprehend [] = Inr []"
| "comprehend (Inl e # xs) = Inl e"
| "comprehend (Inr v # xs) = (case comprehend xs of Inl e \<Rightarrow> Inl e | Inr vs \<Rightarrow> Inr (v # vs))"

text \<open>
  \<open>sorted(xs, key=k, reverse=True)\<close>: CPython reverses the list, sorts it stably in
  ascending order of the key and reverses the result, so that elements with equal keys
  keep their original order.
\<close>

definition sorted_reverse :: "('a \<Rightarrow> int) \<Rightarrow> 'a list \<Rightarrow> 'a list" where
  "sorted_reverse k xs = rev (sort_key k (rev xs))"

section \<open>The receipt ledger (uber/models/commerce.py)\<close>

subsection \<open>Rows\<close>

text \<open>
  The configuration object \<open>c\<close> is not part of the modelled files; the one constant the
  ledger reads, \<open>c.STRIPE\<close>, is a parameter of the functions that use it.
\<close>

record model_receipt =
  receipt_id :: uuid
  invoice_num :: int
  owner_id :: uuid
  owner_model :: string
  receipt_closed :: "utc option"

record receipt_txn =
  txn_receipt_id :: "uuid option"
  intent_id :: "string option"
  charge_id :: "string option"
  refund_id :: "string option"
  txn_method :: int
  txn_amount :: int
  refunded :: "int option"
  txn_added :: utc
  cancelled :: "utc option"
  txn_who :: string
  txn_desc :: string

record receipt_item =
  item_receipt_id :: "uuid option"
  item_amount :: int
  item_count :: int
  item_added :: utc
  item_closed :: "utc option"
  item_who :: string
  item_desc :: string

text \<open>
  The two tables. The relationships \<open>receipt.receipt_items\<close> and
  \<open>receipt.receipt_txns\<close> are the backrefs of the foreign key \<open>receipt_id\<close>: the rows
  whose \<open>receipt_id\<close> is the receipt's id, in table order.
\<close>

record db =
  receipt_item_rows :: "receipt_item list"
  receipt_txn_rows :: "receipt_txn list"

definition items_of :: "db \<Rightarrow> uuid \<Rightarrow> receipt_item list" where
  "items_of d k = filter (\<lambda>i. item_receipt_id i = Some k) (receipt_item_rows d)"

definition receipt_items :: "db \<Rightarrow> model_receipt \<Rightarrow> receipt_item list" where
  "receipt_items d r = items_of d (receipt_id r)"

definition receipt_txns :: "db \<Rightarrow> model_receipt \<Rightarrow> receipt_txn list" where
  "receipt_txns d r = filter (\<lambda>t. txn_receipt_id t = Some (receipt_id r)) (receipt_txn_rows d)"

subsection \<open>ReceiptItem and ReceiptTransaction properties\<close>

definition total_amount :: "receipt_item \<Rightarrow> int" where
  "total_amount i = item_amount i * item_count i"

text \<open>
  \<open>receipt_share\<close> reads \<open>self.receipt.receipt_items\<close>. The column \<open>receipt_id\<close> is
  nullable; with no receipt, \<open>self.receipt\<close> is \<open>None\<close> and the attribute access raises.
\<close>

definition receipt_share :: "db \<Rightarrow> receipt_txn \<Rightarrow> exn + int" where
  "receipt_share d t =
     (case txn_receipt_id t of
        None \<Rightarrow> Inl AttributeError
      | Some k \<Rightarrow>
          Inr (min (txn_amount t)
                 (py_sum (map total_amount
                    (filter (\<lambda>i. item_added i \<le> txn_added t) (items_of d k))))))"

definition is_pending_charge :: "receipt_txn \<Rightarrow> bool" where
  "is_pending_charge t =
     (truthy (intent_id t) \<and> \<not> truthy (charge_id t) \<and> cancelled t = None)"

definition stripe_id :: "receipt_txn \<Rightarrow> string option" where
  "stripe_id t = (if truthy (charge_id t) then charge_id t else intent_id t)"

subsection \<open>ModelReceipt properties\<close>

definition pending_txns :: "db \<Rightarrow> model_receipt \<Rightarrow> receipt_txn list" where
  "pending_txns d r = filter is_pending_charge (receipt_txns d r)"

definition pending_total :: "db \<Rightarrow> model_receipt \<Rightarrow> int" where
  "pending_total d r = py_sum (map txn_amount (filter is_pending_charge (receipt_txns d r)))"

text \<open>The instance-level (Python) form of the hybrid property \<open>payment_total\<close>.\<close>

definition payment_total :: "int \<Rightarrow> db \<Rightarrow> model_receipt \<Rightarrow> exn + int" where
  "payment_total STRIPE d r =
     map_sum id py_sum
       (comprehend (map (receipt_share d)
          (filter (\<lambda>t. cancelled t = None \<and>
                        (truthy (charge_id t) \<or> (txn_method t \<noteq> STRIPE \<and> txn_amount t > 0)))
             (receipt_txns d r))))"

text \<open>
  The class-level (SQL) form: a scalar subquery \<open>SELECT sum(amount) ... WHERE ...\<close>.
  \<open>SUM\<close> over no rows is \<open>NULL\<close>; \<open>x == None\<close> and \<open>x != None\<close> render as
  \<open>IS NULL\<close> and \<open>IS NOT NULL\<close>; a comparison with a \<open>NULL\<close> \<open>receipt_id\<close> selects nothing.
\<close>

definition sql_sum :: "int list \<Rightarrow> int option" where
  "sql_sum xs = (if xs = [] then None else Some (sum_list xs))"

definition payment_total_expression :: "int \<Rightarrow> db \<Rightarrow> model_receipt \<Rightarrow> int option" where
  "payment_total_expression STRIPE d r =
     sql_sum (map txn_amount
       (filter (\<lambda>t. charge_id t \<noteq> None \<or> (txn_method t \<noteq> STRIPE \<and> txn_amount t > 0))
          (filter (\<lambda>t. cancelled t = None)
             (filter (\<lambda>t. txn_receipt_id t = Some (receipt_id r)) (receipt_txn_rows d)))))"

definition refund_total :: "db \<Rightarrow> model_receipt \<Rightarrow> int" where
  "refund_total d r =
     py_sum (map txn_amount (filter (\<lambda>t. txn_amount t < 0) (receipt_txns d r))) * (- 1)"

definition item_total :: "db \<Rightarrow> model_receipt \<Rightarrow> int" where
  "item_total d r = py_sum (map (\<lambda>i. item_amount i * item_count i) (receipt_items d r))"

definition txn_total :: "int \<Rightarrow> db \<Rightarrow> model_receipt \<Rightarrow> exn + int" where
  "txn_total STRIPE d r =
     (case payment_total STRIPE d r of
        Inl e \<Rightarrow> Inl e
      | Inr p \<Rightarrow> Inr (p - refund_total d r))"

definition current_receipt_amount :: "int \<Rightarrow> db \<Rightarrow> model_receipt \<Rightarrow> exn + int" where
  "current_receipt_amount STRIPE d r =
     (case txn_total STRIPE d r of
        Inl e \<Rightarrow> Inl e
      | Inr t \<Rightarrow> Inr (item_total d r - t))"

definition current_amount_owed :: "int \<Rightarrow> db \<Rightarrow> model_receipt \<Rightarrow> exn + int" where
  "current_amount_owed STRIPE d r =
     (case current_receipt_amount STRIPE d r of
        Inl e \<Rightarrow> Inl e
      | Inr a \<Rightarrow> Inr (max 0 a))"

text \<open>
  \<open>sorted(...)[0] if self.pending_txns else None\<close>; indexing an empty list raises.
\<close>

definition last_incomplete_txn :: "db \<Rightarrow> model_receipt \<Rightarrow> exn + receipt_txn option" where
  "last_incomplete_txn d r =
     (if pending_txns d r \<noteq> [] then
        (case sorted_reverse txn_added (pending_txns d r) of
           [] \<Rightarrow> Inl IndexError
         | t # _ \<Rightarrow> Inr (Some t))
      else Inr None)"

subsection \<open>Calls to the payment processor\<close>

text \<open>
  The Stripe client is outside the program: its answers are parameters. Every call the
  code makes is appended to a trace, so that "does not contact the processor" is a
  statement about the trace. A \<open>PaymentIntent\<close> is reduced to what the code reads of it,
  the attribute \<open>intent.charges\<close>: the intent has no such attribute (reading it raises
  \<open>AttributeError\<close>), or its value is \<open>None\<close>, or it holds the ids of the charges in
  \<open>intent.charges.data\<close>, in order. \<open>None\<close> and an empty collection count as false in
  the guard \<open>if intent and intent.charges\<close>.
\<close>

datatype charges_attr =
    ChargesMissing
  | ChargesNone
  | ChargesData "string list"

record payment_intent =
  charges :: charges_attr

datatype effect =
    RefundList "string option"
  | IntentRetrieve "string option"
  | LogError exn
  | MarkPaid "string option" string

record stripe_api =
  refund_list :: "string option \<Rightarrow> exn + int list"
  intent_retrieve :: "string option \<Rightarrow> exn + payment_intent"

text \<open>The loop \<open>for refund in ...: refunded_total += refund.amount\<close>.\<close>

fun add_refunds :: "int \<Rightarrow> int list \<Rightarrow> int" where
  "add_refunds refunded_total [] = refunded_total"
| "add_refunds refunded_total (amount # rest) = add_refunds (refunded_total + amount) rest"

definition update_amount_refunded ::
  "stripe_api \<Rightarrow> receipt_txn \<times> effect list \<Rightarrow> exn + receipt_txn \<times> effect list" where
  "update_amount_refunded api s =
     (case s of (t, trace) \<Rightarrow>
        if \<not> truthy (intent_id t) then Inr (t, trace)
        else
          (case refund_list api (intent_id t) of
             Inl e \<Rightarrow> Inl e
           | Inr refunds \<Rightarrow>
               Inr (t\<lparr>refunded := Some (add_refunds 0 refunds)\<rparr>,
                    trace @ [RefundList (intent_id t)])))"

text \<open>
  \<open>get_stripe_intent\<close> catches every exception of the retrieval, logs it and returns
  \<open>None\<close>.
\<close>

definition get_stripe_intent ::
  "stripe_api \<Rightarrow> receipt_txn \<Rightarrow> effect list \<Rightarrow> payment_intent option \<times> effect list" where
  "get_stripe_intent api t trace =
     (if \<not> truthy (stripe_id t) then (None, trace)
      else
        (case intent_retrieve api (intent_id t) of
           Inl e \<Rightarrow> (None, trace @ [IntentRetrieve (intent_id t), LogError e])
         | Inr i \<Rightarrow> (Some i, trace @ [IntentRetrieve (intent_id t)])))"

text \<open>
  \<open>Charge.mark_paid_from_intent_id\<close> lives in \<open>uber.utils\<close>, outside the modelled files:
  it is the parameter \<open>mark_paid\<close>, a function of the intent id, the charge id and the
  database that returns a result and the updated database, or raises.
\<close>

definition check_paid_from_stripe ::
  "stripe_api \<Rightarrow> (string option \<Rightarrow> string \<Rightarrow> db \<Rightarrow> exn + 'r \<times> db) \<Rightarrow> receipt_txn \<Rightarrow>
     db \<times> effect list \<Rightarrow> exn + 'r option \<times> db \<times> effect list" where
  "check_paid_from_stripe api mark_paid t s =
     (case s of (d, trace) \<Rightarrow>
        if truthy (charge_id t) then Inr (None, d, trace)
        else
          (case get_stripe_intent api t trace of
             (None, trace') \<Rightarrow> Inr (None, d, trace')
           | (Some intent, trace') \<Rightarrow>
               (case charges intent of
                  ChargesMissing \<Rightarrow> Inl AttributeError
                | ChargesNone \<Rightarrow> Inr (None, d, trace')
                | ChargesData [] \<Rightarrow> Inr (None, d, trace')
                | ChargesData (ch # _) \<Rightarrow>
                    (case mark_paid (intent_id t) ch d of
                       Inl e \<Rightarrow> Inl e
                     | Inr (res, d') \<Rightarrow>
                         Inr (Some res, d', trace' @ [MarkPaid (intent_id t) ch])))))"

section \<open>Locked form fields (uber/forms/attendee.py)\<close>

text \<open>
  What the forms read of an attendee, and of the configuration \<open>c\<close>: the badge status
  and badge type constants and whether \<open>c.BADGE_TYPE_PRICES\<close> is non-empty. A form is
  given by the keys of its \<open>_fields\<close>, in declaration order; the fields inherited from
  \<open>AddressForm\<close> and \<open>MagForm\<close> are outside the modelled files, so the keys are a
  parameter.
\<close>

record form_attendee =
  is_new :: bool
  is_valid :: bool
  badge_status :: int
  placeholder :: bool
  active_receipt :: bool
  form_badge_type :: int
  shifts :: "nat list"

record form_config =
  PENDING_STATUS :: int
  REFUNDED_STATUS :: int
  DEFERRED_STATUS :: int
  FORM_STAFF_BADGE :: int
  CONTRACTOR_BADGE :: int
  BADGE_TYPE_PRICES_nonempty :: bool

definition PersonalInfo_get_non_admin_locked_fields ::
  "form_config \<Rightarrow> string list \<Rightarrow> form_attendee \<Rightarrow> string list" where
  "PersonalInfo_get_non_admin_locked_fields c keys attendee =
     (let locked_fields = [] in
      if is_new attendee \<or> badge_status attendee = PENDING_STATUS c then locked_fields
      else if \<not> is_valid attendee \<or> badge_status attendee = REFUNDED_STATUS c then keys
      else if placeholder attendee then locked_fields
      else locked_fields @ [''first_name'', ''last_name'', ''legal_name'', ''same_legal_name''])"

definition BadgeExtras_get_non_admin_locked_fields ::
  "form_config \<Rightarrow> string list \<Rightarrow> form_attendee \<Rightarrow> string list" where
  "BadgeExtras_get_non_admin_locked_fields c keys attendee =
     (let locked_fields = [] in
      if is_new attendee then locked_fields
      else if \<not> is_valid attendee \<or> badge_status attendee = REFUNDED_STATUS c then keys
      else if active_receipt attendee \<or> badge_status attendee = DEFERRED_STATUS c
        then locked_fields @ [''badge_type'', ''amount_extra'', ''extra_donation'']
      else if \<not> BADGE_TYPE_PRICES_nonempty c then locked_fields @ [''badge_type'']
      else locked_fields)"

definition OtherInfo_get_non_admin_locked_fields ::
  "form_config \<Rightarrow> string list \<Rightarrow> form_attendee \<Rightarrow> string list" where
  "OtherInfo_get_non_admin_locked_fields c keys attendee =
     (let locked_fields = (if \<not> placeholder attendee then [''placeholder''] else []) in
      if is_new attendee then locked_fields
      else if \<not> is_valid attendee \<or> badge_status attendee = REFUNDED_STATUS c then keys
      else if form_badge_type attendee \<in> set [FORM_STAFF_BADGE c, CONTRACTOR_BADGE c]
              \<or> shifts attendee \<noteq> []
        then locked_fields @ [''staffing'']
      else locked_fields)"

text \<open>The fields the two forms declare themselves, in order.\<close>

definition BadgeExtras_fields :: "string list" where
  "BadgeExtras_fields =
     [''badge_type'', ''upgrade_badge_type'', ''amount_extra'', ''extra_donation'',
      ''shirt'', ''badge_printed_name'']"

definition OtherInfo_fields :: "string list" where
  "OtherInfo_fields =
     [''placeholder'', ''staffing'', ''requested_dept_ids'',
      ''requested_accessibility_services'', ''interests'']"

section \<open>The migration 1ad8716bfc74 (alembic/versions)\<close>

text \<open>
  A schema maps a table name to its columns, in order. \<open>op.add_column\<close> and
  \<open>op.drop_column\<close> are Alembic's: the database rejects a missing table, a column
  added twice and a missing column.
\<close>

datatype column_type = UTCDateTime | Integer | UnicodeText

record column =
  col_name :: string
  col_type :: column_type
  nullable :: bool

type_synonym schema = "string \<rightharpoonup> column list"

definition add_column :: "string \<Rightarrow> column \<Rightarrow> schema \<Rightarrow> exn + schema" where
  "add_column table col s =
     (case s table of
        None \<Rightarrow> Inl DatabaseError
      | Some cols \<Rightarrow>
          if col_name col \<in> set (map col_name cols) then Inl DatabaseError
          else Inr (s(table \<mapsto> cols @ [col])))"

definition drop_column :: "string \<Rightarrow> string \<Rightarrow> schema \<Rightarrow> exn + schema" where
  "drop_column table name s =
     (case s table of
        None \<Rightarrow> Inl DatabaseError
      | Some cols \<Rightarrow>
          if name \<notin> set (map col_name cols) then Inl DatabaseError
          else Inr (s(table \<mapsto> filter (\<lambda>c. col_name c \<noteq> name) cols)))"

definition upgrade :: "schema \<Rightarrow> exn + schema" where
  "upgrade s =
     (case add_column ''access_group''
             \<lparr>col_name = ''start_time'', col_type = UTCDateTime, nullable = True\<rparr> s of
        Inl e \<Rightarrow> Inl e
      | Inr s1 \<Rightarrow>
          add_column ''access_group''
            \<lparr>col_name = ''end_time'', col_type = UTCDateTime, nullable = True\<rparr> s1)"

definition downgrade :: "schema \<Rightarrow> exn + schema" where
  "downgrade s =
     (case drop_column ''access_group'' ''start_time'' s of
        Inl e \<Rightarrow> Inl e
      | Inr s1 \<Rightarrow> drop_column ''access_group'' ''end_time'' s1)"

section \<open>The plugin's model mixins (mff_rams_plugin/models.py)\<close>

text \<open>
  The constants of the configuration \<open>c\<close> that the mixins read. \<open>c.MAX_DEALERS\<close> may be
  unset (\<open>None\<close>).
\<close>

record plugin_config =
  MAX_DEALERS :: "int option"
  UNDER_13 :: int
  AT_THE_CON :: bool
  ATTENDEE_BADGE :: int
  STAFF_BADGE :: int
  FRIDAY :: int
  SATURDAY :: int
  SUNDAY :: int
  STAFF_RIBBON :: int
  VOLUNTEER_RIBBON :: int
  NOT_PAID :: int
  PAID_BY_GROUP :: int
  NEED_NOT_PAY :: int

text \<open>
  \<open>Group.tables\<close> is a decimal column; a decimal is a rational number and
  \<open>math.ceil\<close> of it is the exact ceiling.
\<close>

record dealer_group =
  tables :: rat

definition dealer_max_badges :: "plugin_config \<Rightarrow> dealer_group \<Rightarrow> int" where
  "dealer_max_badges c g =
     (case MAX_DEALERS c of
        None \<Rightarrow> min (\<lceil>tables g\<rceil> * 3) 12
      | Some m \<Rightarrow> if m \<noteq> 0 then m else min (\<lceil>tables g\<rceil> * 3) 12)"

text \<open>
  What the mixin reads and writes of an attendee. \<open>age_group_conf\<close> is a dictionary
  from the configuration. The column \<open>ribbon\<close> holds the ribbons as comma-separated
  integers and \<open>ribbon_ints\<close> reads them back as a list; the model keeps the list.
\<close>

record attendee =
  badge_type :: int
  ribbon_ints :: "int list"
  staffing :: bool
  overridden_price :: "int option"
  paid :: int
  age_group_conf :: "string \<rightharpoonup> int"

text \<open>
  The local variable \<open>discount\<close> of \<open>age_discount\<close> is assigned in three branches of the
  \<open>if\<close>/\<open>elif\<close> chain on the badge type and in no \<open>else\<close>: after the chain it is bound
  (\<open>Some\<close>) or unbound (\<open>None\<close>), and reading it unbound raises \<open>UnboundLocalError\<close>.
\<close>

definition local_discount :: "plugin_config \<Rightarrow> attendee \<Rightarrow> int option" where
  "local_discount c a =
     (if badge_type a = ATTENDEE_BADGE c then Some 33
      else if badge_type a \<in> set [FRIDAY c, SUNDAY c] then Some 13
      else if badge_type a = SATURDAY c then Some 20
      else None)"

definition subscript :: "(string \<rightharpoonup> int) \<Rightarrow> string \<Rightarrow> exn + int" where
  "subscript m k = (case m k of None \<Rightarrow> Inl KeyError | Some v \<Rightarrow> Inr v)"

definition age_discount :: "plugin_config \<Rightarrow> attendee \<Rightarrow> exn + int" where
  "age_discount c a =
     (let fall_through =
            (case subscript (age_group_conf a) ''discount'' of
               Inl e \<Rightarrow> Inl e
             | Inr d \<Rightarrow> Inr (- d))
      in
      if age_group_conf a ''val'' \<noteq> None
           \<and> age_group_conf a ''val'' = Some (UNDER_13 c)
           \<and> AT_THE_CON c
      then
        (case subscript (age_group_conf a) ''discount'' of
           Inl e \<Rightarrow> Inl e
         | Inr d \<Rightarrow>
             if d = 0 then
               (case local_discount c a of
                  None \<Rightarrow> Inl UnboundLocalError
                | Some discount \<Rightarrow> Inr (- discount))
             else
               (case local_discount c a of
                  None \<Rightarrow> Inl UnboundLocalError
                | Some discount \<Rightarrow> if d < discount then Inr (- discount) else fall_through))
      else fall_through)"

text \<open>
  The module imports neither \<open>remove_opt\<close> nor \<open>add_opt\<close>; whether the names are bound
  in the module's globals when the method runs is a parameter (\<open>None\<close>: unbound, the
  call raises \<open>NameError\<close>). The second \<open>if\<close> of the method reads
  \<open>self.ribbon_intsm\<close>, an attribute no attendee has: evaluating that operand of the
  \<open>or\<close> raises \<open>AttributeError\<close>, and it is evaluated exactly when the first operand
  is false.
\<close>

record module_globals =
  remove_opt :: "(int list \<Rightarrow> int \<Rightarrow> int list) option"
  add_opt :: "(int list \<Rightarrow> int \<Rightarrow> int list) option"

definition ribbon_step :: "module_globals \<Rightarrow> plugin_config \<Rightarrow> attendee \<Rightarrow> exn + attendee" where
  "ribbon_step g c a =
     (if badge_type a = STAFF_BADGE c \<or> STAFF_RIBBON c \<in> set (ribbon_ints a) then
        (case remove_opt g of
           None \<Rightarrow> Inl NameError
         | Some f \<Rightarrow> Inr (a\<lparr>ribbon_ints := f (ribbon_ints a) (VOLUNTEER_RIBBON c)\<rparr>))
      else if staffing a \<and> badge_type a \<noteq> STAFF_BADGE c
                \<and> STAFF_RIBBON c \<notin> set (ribbon_ints a)
                \<and> VOLUNTEER_RIBBON c \<notin> set (ribbon_ints a) then
        (case add_opt g of
           None \<Rightarrow> Inl NameError
         | Some f \<Rightarrow> Inr (a\<lparr>ribbon_ints := f (ribbon_ints a) (VOLUNTEER_RIBBON c)\<rparr>))
      else Inr a)"

definition staffing_step :: "plugin_config \<Rightarrow> attendee \<Rightarrow> exn + attendee" where
  "staffing_step c a =
     (if badge_type a = STAFF_BADGE c then
        (let a1 = a\<lparr>staffing := True\<rparr> in
         if (overridden_price a1 = None \<or> overridden_price a1 = Some 0)
              \<and> paid a1 \<in> set [NOT_PAID c, PAID_BY_GROUP c]
         then Inr (a1\<lparr>paid := NEED_NOT_PAY c\<rparr>)
         else Inr a1)
      else Inl AttributeError)"

definition staffing_badge_and_ribbon_adjustments ::
  "module_globals \<Rightarrow> plugin_config \<Rightarrow> attendee \<Rightarrow> exn + attendee" where
  "staffing_badge_and_ribbon_adjustments g c a =
     (case ribbon_step g c a of
        Inl e \<Rightarrow> Inl e
      | Inr a1 \<Rightarrow> staffing_step c a1)"

section \<open>Concrete inputs\<close>

text \<open>A receipt with one item of 50 and one completed Stripe charge of 100.\<close>

definition r0 :: model_receipt where
  "r0 = \<lparr>receipt_id = 1, invoice_num = 0, owner_id = 7, owner_model = ''Attendee'',
          receipt_closed = None\<rparr>"

definition item0 :: receipt_item where
  "item0 = \<lparr>item_receipt_id = Some 1, item_amount = 50, item_count = 1, item_added = 10,
             item_closed = None, item_who = ''admin'', item_desc = ''badge''\<rparr>"

definition txn0 :: receipt_txn where
  "txn0 = \<lparr>txn_receipt_id = Some 1, intent_id = Some ''pi_1'', charge_id = Some ''ch_1'',
            refund_id = None, txn_method = 1, txn_amount = 100, refunded = None,
            txn_added = 20, cancelled = None, txn_who = ''admin'', txn_desc = ''payment''\<rparr>"

definition db0 :: db where
  "db0 = \<lparr>receipt_item_rows = [item0], receipt_txn_rows = [txn0]\<rparr>"

text \<open>The same receipt with a pending charge of 30, a refund of 20 and a larger item.\<close>

definition item1 :: receipt_item where
  "item1 = item0\<lparr>item_amount := 60, item_count := 2\<rparr>"

definition txn_pending :: receipt_txn where
  "txn_pending = txn0\<lparr>charge_id := None, intent_id := Some ''pi_2'', txn_amount := 30,
                        txn_added := 30\<rparr>"

definition txn_refund :: receipt_txn where
  "txn_refund = txn0\<lparr>txn_amount := - 20, txn_added := 40\<rparr>"

definition db1 :: db where
  "db1 = \<lparr>receipt_item_rows = [item1], receipt_txn_rows = [txn0, txn_pending, txn_refund]\<rparr>"

text \<open>
  A receipt with one item and one Stripe transaction of 40 whose charge id is the empty
  string, and a database with no rows at all.
\<close>

definition txn_blank :: receipt_txn where
  "txn_blank = txn0\<lparr>charge_id := Some [], txn_amount := 40\<rparr>"

definition db2 :: db where
  "db2 = \<lparr>receipt_item_rows = [item0], receipt_txn_rows = [txn_blank]\<rparr>"

definition db_empty :: db where
  "db_empty = \<lparr>receipt_item_rows = [], receipt_txn_rows = []\<rparr>"

text \<open>
  A receipt whose text columns hold the empty string where there is no id: an item of
  120, a completed Stripe charge of 100, a cash payment of 15, a cancelled Stripe
  transaction of 30 and an open Stripe transaction of 0.
\<close>

definition txn_charged :: receipt_txn where
  "txn_charged = \<lparr>txn_receipt_id = Some 1, intent_id = Some ''pi_1'', charge_id = Some ''ch_1'',
                   refund_id = Some [], txn_method = 1, txn_amount = 100, refunded = None,
                   txn_added = 20, cancelled = None, txn_who = ''admin'',
                   txn_desc = ''payment''\<rparr>"

definition txn_cash :: receipt_txn where
  "txn_cash = \<lparr>txn_receipt_id = Some 1, intent_id = Some [], charge_id = Some [],
                refund_id = Some [], txn_method = 2, txn_amount = 15, refunded = None,
                txn_added = 25, cancelled = None, txn_who = ''admin'', txn_desc = ''cash''\<rparr>"

definition txn_cancelled :: receipt_txn where
  "txn_cancelled = \<lparr>txn_receipt_id = Some 1, intent_id = Some ''pi_3'', charge_id = Some [],
                     refund_id = Some [], txn_method = 1, txn_amount = 30, refunded = None,
                     txn_added = 30, cancelled = Some 35, txn_who = ''admin'',
                     txn_desc = ''abandoned''\<rparr>"

definition txn_zero :: receipt_txn where
  "txn_zero = \<lparr>txn_receipt_id = Some 1, intent_id = Some ''pi_4'', charge_id = Some [],
                refund_id = Some [], txn_method = 1, txn_amount = 0, refunded = None,
                txn_added = 40, cancelled = None, txn_who = ''admin'', txn_desc = ''free''\<rparr>"

definition db3 :: db where
  "db3 = \<lparr>receipt_item_rows = [item1],
           receipt_txn_rows = [txn_charged, txn_cash, txn_cancelled, txn_zero]\<rparr>"

text \<open>A processor that reports two refunds of 5 and 7 and an intent with one charge.\<close>

definition api0 :: stripe_api where
  "api0 = \<lparr>refund_list = (\<lambda>_. Inr [5, 7]),
            intent_retrieve = (\<lambda>_. Inr \<lparr>charges = ChargesData [''ch_9'']\<rparr>)\<rparr>"

definition mark_paid0 :: "string option \<Rightarrow> string \<Rightarrow> db \<Rightarrow> exn + unit \<times> db" where
  "mark_paid0 i ch d = Inr ((), d)"

text \<open>Form inputs.\<close>

definition fc0 :: form_config where
  "fc0 = \<lparr>PENDING_STATUS = 1, REFUNDED_STATUS = 2, DEFERRED_STATUS = 3,
           FORM_STAFF_BADGE = 4, CONTRACTOR_BADGE = 5, BADGE_TYPE_PRICES_nonempty = True\<rparr>"

definition invalid_attendee :: form_attendee where
  "invalid_attendee = \<lparr>is_new = False, is_valid = False, badge_status = 0,
                        placeholder = False, active_receipt = False, form_badge_type = 0,
                        shifts = []\<rparr>"

definition new_attendee :: form_attendee where
  "new_attendee = invalid_attendee\<lparr>is_new := True, is_valid := True\<rparr>"

text \<open>A schema with the table \<open>access_group\<close> before the migration.\<close>

definition schema0 :: schema where
  "schema0 = [''access_group'' \<mapsto>
                [\<lparr>col_name = ''name'', col_type = UnicodeText, nullable = False\<rparr>]]"

text \<open>A configuration at the convention, and a child with a staff badge.\<close>

definition pc0 :: plugin_config where
  "pc0 = \<lparr>MAX_DEALERS = None, UNDER_13 = 1, AT_THE_CON = True, ATTENDEE_BADGE = 10,
           STAFF_BADGE = 11, FRIDAY = 12, SATURDAY = 13, SUNDAY = 14, STAFF_RIBBON = 20,
           VOLUNTEER_RIBBON = 21, NOT_PAID = 30, PAID_BY_GROUP = 31, NEED_NOT_PAY = 32\<rparr>"

definition child_staffer :: attendee where
  "child_staffer = \<lparr>badge_type = 11, ribbon_ints = [], staffing = False,
                     overridden_price = None, paid = 30,
                     age_group_conf = [''val'' \<mapsto> 1, ''discount'' \<mapsto> 0]\<rparr>"

definition plain_attendee :: attendee where
  "plain_attendee = child_staffer\<lparr>badge_type := 10\<rparr>"

definition ribbon_staffer :: attendee where
  "ribbon_staffer = child_staffer\<lparr>badge_type := 10, ribbon_ints := [20, 21]\<rparr>"

definition unbound_globals :: module_globals where
  "unbound_globals = \<lparr>remove_opt = None, add_opt = None\<rparr>"

definition bound_globals :: module_globals where
  "bound_globals = \<lparr>remove_opt = Some (\<lambda>opts other. filter (\<lambda>x. x \<noteq> other) opts),
                      add_opt = Some (\<lambda>opts other. opts @ [other])\<rparr>"

section \<open>Properties of the receipt ledger\<close>

subsection \<open>The builtin sum and comprehensions\<close>

lemma sum_from_eq: "sum_from acc xs = acc + sum_list xs"
  by (induction xs arbitrary: acc) simp_all

lemma py_sum_eq: "py_sum xs = sum_list xs"
  by (simp add: py_sum_def sum_from_eq)

lemma add_refunds_eq: "add_refunds acc xs = acc + sum_list xs"
  by (induction xs arbitrary: acc) simp_all

lemma comprehend_all_Inr:
  "(\<And>x. x \<in> set xs \<Longrightarrow> f x = Inr (g x)) \<Longrightarrow> comprehend (map f xs) = Inr (map g xs)"
  by (induction xs) simp_all

lemma receipt_share_of_receipt:
  "txn_receipt_id t = Some (receipt_id r) \<Longrightarrow>
   receipt_share d t =
     Inr (min (txn_amount t)
            (sum_list (map total_amount
               (filter (\<lambda>i. item_added i \<le> txn_added t) (receipt_items d r)))))"
  by (simp add: receipt_share_def receipt_items_def py_sum_eq)

lemma receipt_txns_receipt_id:
  "t \<in> set (receipt_txns d r) \<Longrightarrow> txn_receipt_id t = Some (receipt_id r)"
  by (simp add: receipt_txns_def)

lemma payment_total_value:
  "payment_total S d r =
     Inr (sum_list (map (\<lambda>t. min (txn_amount t)
            (sum_list (map total_amount
               (filter (\<lambda>i. item_added i \<le> txn_added t) (receipt_items d r)))))
          (filter (\<lambda>t. cancelled t = None \<and>
                        (truthy (charge_id t) \<or> (txn_method t \<noteq> S \<and> txn_amount t > 0)))
             (receipt_txns d r))))"
proof -
  let ?ts = "filter (\<lambda>t. cancelled t = None \<and>
                        (truthy (charge_id t) \<or> (txn_method t \<noteq> S \<and> txn_amount t > 0)))
             (receipt_txns d r)"
  let ?g = "\<lambda>t. min (txn_amount t)
            (sum_list (map total_amount
               (filter (\<lambda>i. item_added i \<le> txn_added t) (receipt_items d r))))"
  have "comprehend (map (receipt_share d) ?ts) = Inr (map ?g ?ts)"
    by (rule comprehend_all_Inr)
      (auto dest!: receipt_txns_receipt_id simp: receipt_share_of_receipt)
  then show ?thesis
    by (simp add: payment_total_def py_sum_eq)
qed

lemma refund_total_nonneg: "0 \<le> refund_total d r"
proof -
  have "sum_list (map txn_amount (filter (\<lambda>t. txn_amount t < 0) ts)) \<le> 0" for ts
    by (induction ts) simp_all
  then show ?thesis
    by (simp add: refund_total_def py_sum_eq)
qed

text \<open>
  Claim C1. The running balance of every receipt is computed by summation alone:
  \<open>item_total\<close> is the sum of amount times count over the receipt's items,
  \<open>refund_total\<close> is minus the sum of the negative transaction amounts and is not
  negative, \<open>txn_total\<close> is \<open>payment_total\<close> minus \<open>refund_total\<close>,
  \<open>current_receipt_amount\<close> is \<open>item_total\<close> minus \<open>txn_total\<close>, and
  \<open>current_amount_owed\<close> is the maximum of 0 and that amount, so it is never negative.
  None of the properties raises on a receipt.
\<close>

theorem running_balance:
  "item_total d r = (\<Sum>i\<leftarrow>receipt_items d r. item_amount i * item_count i)
   \<and> refund_total d r
       = - 1 * (\<Sum>t\<leftarrow>filter (\<lambda>t. txn_amount t < 0) (receipt_txns d r). txn_amount t)
   \<and> 0 \<le> refund_total d r
   \<and> (\<exists>p. payment_total S d r = Inr p
          \<and> txn_total S d r = Inr (p - refund_total d r)
          \<and> current_receipt_amount S d r = Inr (item_total d r - (p - refund_total d r))
          \<and> current_amount_owed S d r
              = Inr (max 0 (item_total d r - (p - refund_total d r))))
   \<and> (\<exists>owed. current_amount_owed S d r = Inr owed \<and> 0 \<le> owed)"
proof -
  have items: "item_total d r = (\<Sum>i\<leftarrow>receipt_items d r. item_amount i * item_count i)"
    by (simp add: item_total_def py_sum_eq)
  have refunds: "refund_total d r
       = - 1 * (\<Sum>t\<leftarrow>filter (\<lambda>t. txn_amount t < 0) (receipt_txns d r). txn_amount t)"
    by (simp add: refund_total_def py_sum_eq)
  obtain p where p: "payment_total S d r = Inr p"
    using payment_total_value by blast
  have t: "txn_total S d r = Inr (p - refund_total d r)"
    by (simp add: txn_total_def p)
  have a: "current_receipt_amount S d r = Inr (item_total d r - (p - refund_total d r))"
    by (simp add: current_receipt_amount_def t)
  have o: "current_amount_owed S d r = Inr (max 0 (item_total d r - (p - refund_total d r)))"
    by (simp add: current_amount_owed_def a)
  have "\<exists>owed. current_amount_owed S d r = Inr owed \<and> 0 \<le> owed"
    using o by simp
  with items refunds refund_total_nonneg p t a o show ?thesis
    by blast
qed

lemmas ledger_defs = r0_def item0_def item1_def txn0_def txn_pending_def txn_refund_def
  db0_def db1_def receipt_items_def items_of_def receipt_txns_def total_amount_def truthy_def

theorem running_balance_witness:
  "item_total db1 r0 = 120 \<and> refund_total db1 r0 = 20 \<and> payment_total 1 db1 r0 = Inr 80
   \<and> txn_total 1 db1 r0 = Inr 60 \<and> current_receipt_amount 1 db1 r0 = Inr 60
   \<and> current_amount_owed 1 db1 r0 = Inr 60"
proof -
  have i: "item_total db1 r0 = 120"
    by (simp add: item_total_def py_sum_def ledger_defs)
  have f: "refund_total db1 r0 = 20"
    by (simp add: refund_total_def py_sum_def ledger_defs)
  have p: "payment_total 1 db1 r0 = Inr 80"
    by (simp add: payment_total_def receipt_share_def py_sum_def ledger_defs)
  from running_balance [of db1 r0 1] i f p show ?thesis
    by auto
qed

subsection \<open>Shares and the two forms of the payment total\<close>

lemma total_amount_fun: "total_amount = (\<lambda>i. item_amount i * item_count i)"
  by (simp add: fun_eq_iff total_amount_def)

text \<open>
  Claim C3. For a transaction of a receipt, \<open>receipt_share\<close> is the minimum of the
  transaction's amount and the sum of amount times count over the items of its receipt
  added at or before the transaction; so the share never exceeds the amount.
\<close>

theorem receipt_share_capped:
  assumes "txn_receipt_id t = Some (receipt_id r)"
  shows "receipt_share d t =
           Inr (min (txn_amount t)
                  (\<Sum>i\<leftarrow>filter (\<lambda>i. item_added i \<le> txn_added t) (receipt_items d r).
                      item_amount i * item_count i))
         \<and> (\<exists>s. receipt_share d t = Inr s \<and> s \<le> txn_amount t)"
proof -
  have "receipt_share d t =
           Inr (min (txn_amount t)
                  (\<Sum>i\<leftarrow>filter (\<lambda>i. item_added i \<le> txn_added t) (receipt_items d r).
                      item_amount i * item_count i))"
    using assms by (simp add: receipt_share_of_receipt total_amount_fun)
  then show ?thesis by simp
qed

theorem receipt_share_capped_witness:
  "txn_receipt_id txn0 = Some (receipt_id r0) \<and> receipt_share db0 txn0 = Inr 50
   \<and> (50::int) \<le> txn_amount txn0"
proof -
  have h: "txn_receipt_id txn0 = Some (receipt_id r0)"
    by (simp add: txn0_def r0_def)
  from receipt_share_capped [OF h, of db0] h show ?thesis
    by (simp add: ledger_defs)
qed

text \<open>
  Claim C2, as stated, fails: on a receipt with one item of 50 and one completed charge
  of 100 the Python form of \<open>payment_total\<close> is 50 (the share is capped by the items)
  and the SQL form is 100 (the raw amount). The forms also differ on a Stripe
  transaction whose charge id is the empty string (not counted in Python, counted in
  SQL) and on a receipt with no counted row (0 in Python, \<open>NULL\<close> in SQL).
\<close>

theorem payment_total_forms_differ:
  "payment_total 1 db0 r0 = Inr 50 \<and> payment_total_expression 1 db0 r0 = Some 100
   \<and> payment_total 1 db2 r0 = Inr 0 \<and> payment_total_expression 1 db2 r0 = Some 40
   \<and> payment_total 1 db_empty r0 = Inr 0 \<and> payment_total_expression 1 db_empty r0 = None"
  by (simp add: payment_total_def payment_total_expression_def receipt_share_def py_sum_def
      sql_sum_def ledger_defs txn_blank_def db2_def db_empty_def)

lemmas ledger_blank_defs = txn_charged_def txn_cash_def txn_cancelled_def txn_zero_def db3_def

lemma filter_cong_set: "(\<And>x. x \<in> set xs \<Longrightarrow> P x = Q x) \<Longrightarrow> filter P xs = filter Q xs"
  by (induction xs) simp_all

lemma sum_list_filter_if:
  "sum_list (map f (filter P xs)) = sum_list (map (\<lambda>x. if P x then f x else (0::int)) xs)"
  by (induction xs) simp_all

text \<open>
  Claim C2, amended. On a receipt where every transaction that is not cancelled and
  whose charge id is the empty string has either a non-Stripe method and a positive
  amount, or the amount 0; where the amount of every transaction that the Python form
  counts is at most the total of the items added at or before it; and where the SQL form
  selects at least one row: the Python form and the SQL form of \<open>payment_total\<close> have
  the same value.
\<close>

theorem payment_total_forms_agree:
  assumes blank_ids: "\<forall>t\<in>set (receipt_txns d r).
        cancelled t = None \<and> charge_id t = Some []
        \<longrightarrow> (txn_method t \<noteq> S \<and> txn_amount t > 0) \<or> txn_amount t = 0"
    and covered: "\<forall>t\<in>set (receipt_txns d r).
        cancelled t = None \<and> (truthy (charge_id t) \<or> (txn_method t \<noteq> S \<and> txn_amount t > 0))
        \<longrightarrow> txn_amount t \<le> (\<Sum>i\<leftarrow>filter (\<lambda>i. item_added i \<le> txn_added t) (receipt_items d r).
                                item_amount i * item_count i)"
    and some_row: "\<exists>t\<in>set (receipt_txns d r).
        cancelled t = None \<and> (charge_id t \<noteq> None \<or> (txn_method t \<noteq> S \<and> txn_amount t > 0))"
  shows "\<exists>p. payment_total S d r = Inr p \<and> payment_total_expression S d r = Some p"
proof -
  let ?py = "\<lambda>t. cancelled t = None \<and>
                 (truthy (charge_id t) \<or> (txn_method t \<noteq> S \<and> txn_amount t > 0))"
  let ?sql = "\<lambda>t. cancelled t = None \<and>
                 (charge_id t \<noteq> None \<or> (txn_method t \<noteq> S \<and> txn_amount t > 0))"
  let ?share = "\<lambda>t. min (txn_amount t)
            (sum_list (map total_amount
               (filter (\<lambda>i. item_added i \<le> txn_added t) (receipt_items d r))))"
  have row: "(if ?py t then ?share t else 0) = (if ?sql t then txn_amount t else 0)"
    if t: "t \<in> set (receipt_txns d r)" for t
  proof (cases "?py t")
    case py: True
    with covered t have "txn_amount t \<le> (\<Sum>i\<leftarrow>filter (\<lambda>i. item_added i \<le> txn_added t) (receipt_items d r).
                                item_amount i * item_count i)"
      by blast
    then have sh: "?share t = txn_amount t"
      by (simp add: total_amount_fun)
    from py have sq: "?sql t"
      by (auto simp: truthy_def)
    show ?thesis
      by (simp only: if_P [OF py] if_P [OF sq] sh)
  next
    case npy: False
    show ?thesis
    proof (cases "?sql t")
      case sq: True
      with npy have "cancelled t = None" and "charge_id t = Some []"
        by (auto simp: truthy_def split: option.splits)
      with blank_ids t npy have z: "txn_amount t = 0"
        by blast
      have "(if ?py t then ?share t else 0) = 0"
        by (simp only: if_not_P [OF npy])
      moreover have "(if ?sql t then txn_amount t else 0) = txn_amount t"
        by (simp only: if_P [OF sq])
      ultimately show ?thesis
        by (simp only: z)
    next
      case nsq: False
      show ?thesis
        by (simp only: if_not_P [OF npy] if_not_P [OF nsq])
    qed
  qed
  have same_sum: "sum_list (map ?share (filter ?py (receipt_txns d r)))
      = sum_list (map txn_amount (filter ?sql (receipt_txns d r)))"
  proof -
    have "map (\<lambda>t. if ?py t then ?share t else 0) (receipt_txns d r)
        = map (\<lambda>t. if ?sql t then txn_amount t else 0) (receipt_txns d r)"
      by (rule map_cong [OF refl]) (rule row)
    then show ?thesis
      by (simp only: sum_list_filter_if)
  qed
  have rows: "filter ?sql (receipt_txns d r) \<noteq> []"
    using some_row by (auto simp: filter_empty_conv)
  have py: "payment_total S d r
      = Inr (sum_list (map txn_amount (filter ?sql (receipt_txns d r))))"
    by (simp only: payment_total_value same_sum)
  have "filter (\<lambda>t. charge_id t \<noteq> None \<or> (txn_method t \<noteq> S \<and> txn_amount t > 0))
          (filter (\<lambda>t. cancelled t = None)
             (filter (\<lambda>t. txn_receipt_id t = Some (receipt_id r)) (receipt_txn_rows d)))
        = filter ?sql (receipt_txns d r)"
    by (auto simp: receipt_txns_def intro: filter_cong_set)
  then have sql: "payment_total_expression S d r
      = Some (sum_list (map txn_amount (filter ?sql (receipt_txns d r))))"
    using rows by (simp add: payment_total_expression_def sql_sum_def)
  from py sql show ?thesis by blast
qed

theorem payment_total_forms_agree_witness:
  "payment_total 1 db3 r0 = Inr 115 \<and> payment_total_expression 1 db3 r0 = Some 115"
proof -
  have a: "\<forall>t\<in>set (receipt_txns db3 r0).
        cancelled t = None \<and> charge_id t = Some []
        \<longrightarrow> (txn_method t \<noteq> 1 \<and> txn_amount t > 0) \<or> txn_amount t = 0"
    by (simp add: ledger_defs ledger_blank_defs)
  have b: "\<forall>t\<in>set (receipt_txns db3 r0).
        cancelled t = None \<and> (truthy (charge_id t) \<or> (txn_method t \<noteq> 1 \<and> txn_amount t > 0))
        \<longrightarrow> txn_amount t \<le> (\<Sum>i\<leftarrow>filter (\<lambda>i. item_added i \<le> txn_added t) (receipt_items db3 r0).
                                item_amount i * item_count i)"
    by (simp add: ledger_defs ledger_blank_defs)
  have c: "\<exists>t\<in>set (receipt_txns db3 r0).
        cancelled t = None \<and> (charge_id t \<noteq> None \<or> (txn_method t \<noteq> 1 \<and> txn_amount t > 0))"
    by (simp add: ledger_defs ledger_blank_defs)
  have p: "payment_total 1 db3 r0 = Inr 115"
    by (simp add: payment_total_def receipt_share_def py_sum_def ledger_defs ledger_blank_defs)
  from payment_total_forms_agree [OF a b c] p show ?thesis
    by auto
qed

subsection \<open>Pending charges\<close>

lemma sorted_reverse_set: "set (sorted_reverse k xs) = set xs"
  by (simp add: sorted_reverse_def)

lemma sorted_reverse_head_max:
  assumes "sorted_reverse k xs = t # ts"
  shows "t \<in> set xs \<and> (\<forall>u\<in>set xs. k u \<le> k t)"
proof -
  have mem: "t \<in> set xs"
    using assms sorted_reverse_set [of k xs] by auto
  have "sort_key k (rev xs) = rev ts @ [t]"
    using assms by (simp add: sorted_reverse_def rev_swap)
  moreover have "sorted (map k (sort_key k (rev xs)))"
    by simp
  ultimately have "sorted (map k (rev ts) @ [k t])"
    by simp
  then have "\<forall>u\<in>set (rev ts). k u \<le> k t"
    by (simp add: sorted_append)
  moreover have "set xs = insert t (set ts)"
    using assms sorted_reverse_set [of k xs] by auto
  ultimately have "\<forall>u\<in>set xs. k u \<le> k t"
    by simp
  with mem show ?thesis by simp
qed

lemma sorted_reverse_Nil: "sorted_reverse k xs = [] \<longleftrightarrow> xs = []"
  using sorted_reverse_set [of k xs] by (metis set_empty)

text \<open>
  Claim C4. A transaction is a pending charge exactly when it has a non-empty intent
  id, no charge id (none or the empty string) and is not cancelled. For every receipt,
  \<open>pending_txns\<close> holds exactly its pending transactions, \<open>pending_total\<close> is the sum
  of their amounts, and \<open>last_incomplete_txn\<close> is \<open>None\<close> when there is no pending
  transaction and otherwise a pending transaction whose added timestamp is the latest.
\<close>

theorem pending_charges:
  "(is_pending_charge t \<longleftrightarrow>
      (\<exists>s. intent_id t = Some s \<and> s \<noteq> [])
      \<and> (charge_id t = None \<or> charge_id t = Some [])
      \<and> cancelled t = None)
   \<and> set (pending_txns d r) = {t \<in> set (receipt_txns d r). is_pending_charge t}
   \<and> pending_total d r = (\<Sum>t\<leftarrow>pending_txns d r. txn_amount t)
   \<and> (pending_txns d r = [] \<longrightarrow> last_incomplete_txn d r = Inr None)
   \<and> (pending_txns d r \<noteq> [] \<longrightarrow>
        (\<exists>t. last_incomplete_txn d r = Inr (Some t)
           \<and> t \<in> set (pending_txns d r)
           \<and> (\<forall>u\<in>set (pending_txns d r). txn_added u \<le> txn_added t)))"
proof -
  have a: "is_pending_charge t \<longleftrightarrow>
      (\<exists>s. intent_id t = Some s \<and> s \<noteq> [])
      \<and> (charge_id t = None \<or> charge_id t = Some [])
      \<and> cancelled t = None"
    by (cases "intent_id t"; cases "charge_id t") (simp_all add: is_pending_charge_def truthy_def)
  have b: "set (pending_txns d r) = {t \<in> set (receipt_txns d r). is_pending_charge t}"
    by (simp add: pending_txns_def)
  have c: "pending_total d r = (\<Sum>t\<leftarrow>pending_txns d r. txn_amount t)"
    by (simp add: pending_total_def pending_txns_def py_sum_eq)
  have e: "pending_txns d r = [] \<longrightarrow> last_incomplete_txn d r = Inr None"
    by (simp add: last_incomplete_txn_def)
  have f: "pending_txns d r \<noteq> [] \<longrightarrow>
        (\<exists>t. last_incomplete_txn d r = Inr (Some t)
           \<and> t \<in> set (pending_txns d r)
           \<and> (\<forall>u\<in>set (pending_txns d r). txn_added u \<le> txn_added t))"
  proof
    assume ne: "pending_txns d r \<noteq> []"
    then obtain t ts where s: "sorted_reverse txn_added (pending_txns d r) = t # ts"
      using sorted_reverse_Nil [of txn_added "pending_txns d r"]
      by (cases "sorted_reverse txn_added (pending_txns d r)") simp_all
    then have "last_incomplete_txn d r = Inr (Some t)"
      using ne by (simp add: last_incomplete_txn_def)
    with sorted_reverse_head_max [OF s] show
      "\<exists>t. last_incomplete_txn d r = Inr (Some t)
           \<and> t \<in> set (pending_txns d r)
           \<and> (\<forall>u\<in>set (pending_txns d r). txn_added u \<le> txn_added t)"
      by blast
  qed
  from a b c e f show ?thesis by blast
qed

theorem pending_charges_witness:
  "is_pending_charge txn_pending \<and> pending_txns db1 r0 = [txn_pending]
   \<and> pending_total db1 r0 = 30 \<and> last_incomplete_txn db1 r0 = Inr (Some txn_pending)
   \<and> pending_txns db0 r0 = [] \<and> last_incomplete_txn db0 r0 = Inr None"
proof -
  have p1: "pending_txns db1 r0 = [txn_pending]"
    by (simp add: pending_txns_def is_pending_charge_def ledger_defs)
  have p0: "pending_txns db0 r0 = []"
    by (simp add: pending_txns_def is_pending_charge_def ledger_defs)
  have ip: "is_pending_charge txn_pending"
    by (simp add: is_pending_charge_def ledger_defs)
  from pending_charges [where t = txn_pending and d = db1 and r = r0]
    pending_charges [where t = txn_pending and d = db0 and r = r0] p1 p0 ip
  show ?thesis
    by (simp add: txn_pending_def txn0_def)
qed

subsection \<open>Calls to the payment processor\<close>

text \<open>
  Claim C5. Without an intent id, \<open>update_amount_refunded\<close> returns the transaction
  unchanged and makes no call. With an intent id for which the processor reports
  refunds, it sets \<open>refunded\<close> to the sum of their amounts and changes no other field.
  With a charge id, \<open>check_paid_from_stripe\<close> returns \<open>None\<close>, makes no call to the
  processor and leaves the database as it is.
\<close>

theorem processor_frame:
  "(\<not> truthy (intent_id t) \<longrightarrow> update_amount_refunded api (t, trace) = Inr (t, trace))
   \<and> (truthy (intent_id t) \<and> refund_list api (intent_id t) = Inr refunds \<longrightarrow>
        (\<exists>trace'. update_amount_refunded api (t, trace)
                     = Inr (t\<lparr>refunded := Some (sum_list refunds)\<rparr>, trace')))
   \<and> (truthy (charge_id t) \<longrightarrow>
        check_paid_from_stripe api mark_paid t (d, trace) = Inr (None, d, trace))"
  by (simp add: update_amount_refunded_def check_paid_from_stripe_def add_refunds_eq)

theorem processor_frame_witness:
  "update_amount_refunded api0 (txn0\<lparr>intent_id := None\<rparr>, []) = Inr (txn0\<lparr>intent_id := None\<rparr>, [])
   \<and> (\<exists>trace'. update_amount_refunded api0 (txn0, []) = Inr (txn0\<lparr>refunded := Some 12\<rparr>, trace'))
   \<and> check_paid_from_stripe api0 mark_paid0 txn0 (db0, []) = Inr (None, db0, [])"
proof -
  have a: "\<not> truthy (intent_id (txn0\<lparr>intent_id := None\<rparr>))"
    by (simp add: truthy_def)
  have b: "truthy (intent_id txn0) \<and> refund_list api0 (intent_id txn0) = Inr [5, 7]"
    by (simp add: truthy_def txn0_def api0_def)
  have c: "truthy (charge_id txn0)"
    by (simp add: truthy_def txn0_def)
  from processor_frame [where t = "txn0\<lparr>intent_id := None\<rparr>" and api = api0 and trace = "[]"
      and refunds = "[]" and mark_paid = mark_paid0 and d = db0]
    processor_frame [where t = txn0 and api = api0 and refunds = "[5, 7]" and trace = "[]"
      and mark_paid = mark_paid0 and d = db0] a b c
  show ?thesis
    by simp
qed

section \<open>Properties of the forms, the migration and the plugin\<close>

subsection \<open>Locked form fields\<close>

text \<open>
  Claim C6. For an attendee that is not new (and, for \<open>PersonalInfo\<close>, not in pending
  badge status) and that is not valid or has the refunded badge status, each of the
  three forms locks all of its field keys. For a new attendee, \<open>PersonalInfo\<close> and
  \<open>BadgeExtras\<close> lock nothing.
\<close>

theorem locked_fields:
  "(\<not> is_new a \<and> badge_status a \<noteq> PENDING_STATUS c
      \<and> (\<not> is_valid a \<or> badge_status a = REFUNDED_STATUS c)
      \<longrightarrow> PersonalInfo_get_non_admin_locked_fields c keys a = keys)
   \<and> (\<not> is_new a \<and> (\<not> is_valid a \<or> badge_status a = REFUNDED_STATUS c)
      \<longrightarrow> BadgeExtras_get_non_admin_locked_fields c keys a = keys
          \<and> OtherInfo_get_non_admin_locked_fields c keys a = keys)
   \<and> (is_new a
      \<longrightarrow> PersonalInfo_get_non_admin_locked_fields c keys a = []
          \<and> BadgeExtras_get_non_admin_locked_fields c keys a = [])"
  by (simp add: PersonalInfo_get_non_admin_locked_fields_def
      BadgeExtras_get_non_admin_locked_fields_def OtherInfo_get_non_admin_locked_fields_def)

theorem locked_fields_witness:
  "BadgeExtras_get_non_admin_locked_fields fc0 BadgeExtras_fields invalid_attendee
     = BadgeExtras_fields
   \<and> OtherInfo_get_non_admin_locked_fields fc0 OtherInfo_fields invalid_attendee
     = OtherInfo_fields
   \<and> PersonalInfo_get_non_admin_locked_fields fc0 [''first_name'', ''email''] invalid_attendee
     = [''first_name'', ''email'']
   \<and> PersonalInfo_get_non_admin_locked_fields fc0 [''first_name'', ''email''] new_attendee = []
   \<and> BadgeExtras_get_non_admin_locked_fields fc0 BadgeExtras_fields new_attendee = []"
proof -
  have old: "\<not> is_new invalid_attendee \<and> badge_status invalid_attendee \<noteq> PENDING_STATUS fc0
      \<and> \<not> is_valid invalid_attendee"
    by (simp add: invalid_attendee_def fc0_def)
  have new: "is_new new_attendee"
    by (simp add: new_attendee_def)
  from locked_fields [where a = invalid_attendee and c = fc0 and keys = BadgeExtras_fields]
    locked_fields [where a = invalid_attendee and c = fc0 and keys = OtherInfo_fields]
    locked_fields [where a = invalid_attendee and c = fc0 and keys = "[''first_name'', ''email'']"]
    locked_fields [where a = new_attendee and c = fc0 and keys = "[''first_name'', ''email'']"]
    locked_fields [where a = new_attendee and c = fc0 and keys = BadgeExtras_fields]
    old new
  show ?thesis
    by simp
qed

subsection \<open>The migration\<close>

lemma add_column_Inr:
  "add_column table col s = Inr s' \<Longrightarrow>
   \<exists>cols. s table = Some cols \<and> col_name col \<notin> set (map col_name cols)
      \<and> s' = s(table \<mapsto> cols @ [col])"
  by (auto simp: add_column_def split: option.splits if_splits)

lemma drop_column_Inr:
  "drop_column table name s = Inr s' \<Longrightarrow>
   \<exists>cols. s table = Some cols \<and> name \<in> set (map col_name cols)
      \<and> s' = s(table \<mapsto> filter (\<lambda>c. col_name c \<noteq> name) cols)"
  by (auto simp: drop_column_def split: option.splits if_splits)

lemma filter_absent: "name \<notin> set (map col_name cols) \<Longrightarrow> filter (\<lambda>c. col_name c \<noteq> name) cols = cols"
  by (induction cols) auto

text \<open>
  Claim C7. A successful upgrade appends exactly the two nullable \<open>UTCDateTime\<close>
  columns \<open>start_time\<close> and \<open>end_time\<close> to the table \<open>access_group\<close> and changes
  nothing else; a successful downgrade removes exactly the columns of these two names
  from that table; and downgrade after upgrade gives back the schema before the upgrade.
\<close>

theorem migration_round_trip:
  "(upgrade s = Inr s' \<longrightarrow>
      (\<exists>cols. s ''access_group'' = Some cols
         \<and> s' = s(''access_group'' \<mapsto> cols @
                [\<lparr>col_name = ''start_time'', col_type = UTCDateTime, nullable = True\<rparr>,
                 \<lparr>col_name = ''end_time'', col_type = UTCDateTime, nullable = True\<rparr>]))
      \<and> downgrade s' = Inr s)
   \<and> (downgrade s = Inr s'' \<longrightarrow>
      (\<exists>cols. s ''access_group'' = Some cols
         \<and> s'' = s(''access_group'' \<mapsto>
              filter (\<lambda>c. col_name c \<noteq> ''start_time'' \<and> col_name c \<noteq> ''end_time'') cols)))"
proof -
  let ?st = "\<lparr>col_name = ''start_time'', col_type = UTCDateTime, nullable = True\<rparr>"
  let ?en = "\<lparr>col_name = ''end_time'', col_type = UTCDateTime, nullable = True\<rparr>"
  have up: "(\<exists>cols. s ''access_group'' = Some cols
         \<and> s' = s(''access_group'' \<mapsto> cols @ [?st, ?en])) \<and> downgrade s' = Inr s"
    if u: "upgrade s = Inr s'"
  proof -
    from u obtain s1 where a1: "add_column ''access_group'' ?st s = Inr s1"
      and a2: "add_column ''access_group'' ?en s1 = Inr s'"
      by (auto simp: upgrade_def split: sum.splits)
    from add_column_Inr [OF a1] obtain cols where c: "s ''access_group'' = Some cols"
      and n1: "''start_time'' \<notin> set (map col_name cols)"
      and s1: "s1 = s(''access_group'' \<mapsto> cols @ [?st])"
      by auto
    from add_column_Inr [OF a2] s1 have n2: "''end_time'' \<notin> set (map col_name cols)"
      and s': "s' = s(''access_group'' \<mapsto> cols @ [?st, ?en])"
      by auto
    have d1: "drop_column ''access_group'' ''start_time'' s'
        = Inr (s(''access_group'' \<mapsto> cols @ [?en]))"
      using n1 by (simp add: s' drop_column_def filter_absent)
    have d2: "drop_column ''access_group'' ''end_time'' (s(''access_group'' \<mapsto> cols @ [?en]))
        = Inr (s(''access_group'' \<mapsto> cols))"
      using n2 by (simp add: drop_column_def filter_absent)
    have "s(''access_group'' \<mapsto> cols) = s"
      using c by (simp add: fun_upd_idem)
    with d1 d2 have "downgrade s' = Inr s"
      by (simp add: downgrade_def)
    with c s' show ?thesis by blast
  qed
  have down: "\<exists>cols. s ''access_group'' = Some cols
         \<and> s'' = s(''access_group'' \<mapsto>
              filter (\<lambda>c. col_name c \<noteq> ''start_time'' \<and> col_name c \<noteq> ''end_time'') cols)"
    if dn: "downgrade s = Inr s''"
  proof -
    from dn obtain s1 where a1: "drop_column ''access_group'' ''start_time'' s = Inr s1"
      and a2: "drop_column ''access_group'' ''end_time'' s1 = Inr s''"
      by (auto simp: downgrade_def split: sum.splits)
    from drop_column_Inr [OF a1] obtain cols where c: "s ''access_group'' = Some cols"
      and s1: "s1 = s(''access_group'' \<mapsto> filter (\<lambda>c. col_name c \<noteq> ''start_time'') cols)"
      by auto
    from drop_column_Inr [OF a2] s1 have "s'' = s(''access_group'' \<mapsto>
        filter (\<lambda>c. col_name c \<noteq> ''end_time'') (filter (\<lambda>c. col_name c \<noteq> ''start_time'') cols))"
      by auto
    then have "s'' = s(''access_group'' \<mapsto>
        filter (\<lambda>c. col_name c \<noteq> ''start_time'' \<and> col_name c \<noteq> ''end_time'') cols)"
      by (simp add: conj_commute)
    with c show ?thesis by blast
  qed
  from up down show ?thesis by blast
qed


theorem migration_round_trip_witness:
  "upgrade schema0 = Inr (schema0(''access_group'' \<mapsto>
       [\<lparr>col_name = ''name'', col_type = UnicodeText, nullable = False\<rparr>,
        \<lparr>col_name = ''start_time'', col_type = UTCDateTime, nullable = True\<rparr>,
        \<lparr>col_name = ''end_time'', col_type = UTCDateTime, nullable = True\<rparr>]))
   \<and> downgrade (schema0(''access_group'' \<mapsto>
       [\<lparr>col_name = ''name'', col_type = UnicodeText, nullable = False\<rparr>,
        \<lparr>col_name = ''start_time'', col_type = UTCDateTime, nullable = True\<rparr>,
        \<lparr>col_name = ''end_time'', col_type = UTCDateTime, nullable = True\<rparr>])) = Inr schema0
   \<and> schema0 ''access_group''
       = Some [\<lparr>col_name = ''name'', col_type = UnicodeText, nullable = False\<rparr>]"
proof -
  let ?s' = "schema0(''access_group'' \<mapsto>
       [\<lparr>col_name = ''name'', col_type = UnicodeText, nullable = False\<rparr>,
        \<lparr>col_name = ''start_time'', col_type = UTCDateTime, nullable = True\<rparr>,
        \<lparr>col_name = ''end_time'', col_type = UTCDateTime, nullable = True\<rparr>])"
  have u: "upgrade schema0 = Inr ?s'"
    by (simp add: upgrade_def add_column_def schema0_def)
  have d: "downgrade ?s' = Inr schema0"
    using migration_round_trip [where s = schema0 and s' = ?s' and s'' = schema0] u by simp
  have "\<exists>cols. ?s' ''access_group'' = Some cols
      \<and> schema0 = ?s'(''access_group'' \<mapsto>
            filter (\<lambda>c. col_name c \<noteq> ''start_time'' \<and> col_name c \<noteq> ''end_time'') cols)"
    using migration_round_trip [where s = ?s' and s' = schema0 and s'' = schema0] d by blast
  then have "schema0 ''access_group''
       = Some [\<lparr>col_name = ''name'', col_type = UnicodeText, nullable = False\<rparr>]"
    by (simp add: schema0_def)
  with u d show ?thesis
    by simp
qed

subsection \<open>The plugin's mixins\<close>

text \<open>
  Claim C10. With \<open>MAX_DEALERS\<close> unset or zero, \<open>dealer_max_badges\<close> is the minimum of
  three times the ceiling of the table count and 12, hence at most 12; with a non-zero
  \<open>MAX_DEALERS\<close> it is \<open>MAX_DEALERS\<close>, whatever the table count.
\<close>

theorem dealer_badge_limit:
  "((MAX_DEALERS c = None \<or> MAX_DEALERS c = Some 0) \<longrightarrow>
      dealer_max_badges c g = min (3 * \<lceil>tables g\<rceil>) 12 \<and> dealer_max_badges c g \<le> 12)
   \<and> (MAX_DEALERS c = Some m \<and> m \<noteq> 0 \<longrightarrow> dealer_max_badges c g = m)"
  by (auto simp: dealer_max_badges_def mult.commute)

theorem dealer_badge_limit_witness:
  "dealer_max_badges pc0 \<lparr>tables = 3 / 2\<rparr> = 6
   \<and> dealer_max_badges pc0 \<lparr>tables = 5\<rparr> = 12
   \<and> dealer_max_badges (pc0\<lparr>MAX_DEALERS := Some 20\<rparr>) \<lparr>tables = 5\<rparr> = 20"
proof -
  have a: "MAX_DEALERS pc0 = None"
    by (simp add: pc0_def)
  have b: "MAX_DEALERS (pc0\<lparr>MAX_DEALERS := Some 20\<rparr>) = Some 20 \<and> (20::int) \<noteq> 0"
    by simp
  have c: "\<lceil>3 / 2 :: rat\<rceil> = 2"
    by (simp add: ceiling_eq_iff)
  from dealer_badge_limit [where c = pc0 and g = "\<lparr>tables = 3 / 2\<rparr>" and m = 1]
    dealer_badge_limit [where c = pc0 and g = "\<lparr>tables = 5\<rparr>" and m = 1]
    dealer_badge_limit [where c = "pc0\<lparr>MAX_DEALERS := Some 20\<rparr>" and g = "\<lparr>tables = 5\<rparr>" and m = 20]
    a b c
  show ?thesis
    by simp
qed

text \<open>
  Claim C8 says that \<open>age_discount\<close> never raises. For a child under 13 at the
  convention with a staff badge, a badge type that none of the three branches covers,
  the local variable \<open>discount\<close> is read unbound.
\<close>

theorem age_discount_unbound_local:
  "age_discount pc0 child_staffer = Inl UnboundLocalError"
  by (simp add: age_discount_def local_discount_def subscript_def pc0_def child_staffer_def)

text \<open>
  Claim C9 says that the presave adjustment never raises and sets \<open>staffing\<close> for an
  attendee with a staff ribbon. For an attendee with an attendee badge and a staff
  ribbon it raises: \<open>AttributeError\<close> at \<open>self.ribbon_intsm\<close> when the helpers are
  bound, \<open>NameError\<close> at \<open>remove_opt\<close> when they are not. An attendee with an attendee
  badge and no ribbon reaches \<open>self.ribbon_intsm\<close> as well.
\<close>

theorem staffing_adjustments_raise:
  "staffing_badge_and_ribbon_adjustments bound_globals pc0 ribbon_staffer = Inl AttributeError
   \<and> staffing_badge_and_ribbon_adjustments unbound_globals pc0 ribbon_staffer = Inl NameError
   \<and> staffing_badge_and_ribbon_adjustments g pc0 plain_attendee = Inl AttributeError"
  by (simp add: staffing_badge_and_ribbon_adjustments_def ribbon_step_def staffing_step_def
      bound_globals_def unbound_globals_def pc0_def ribbon_staffer_def plain_attendee_def
      child_staffer_def)

end
